theory Spec2Isabelle
  imports Main
begin

section \<open>JavaScript values\<close>

text \<open>
  The handlers receive untyped JavaScript values (\<^verbatim>\<open>req.query\<close>, \<^verbatim>\<open>req.params\<close>, the
  protocol's \<^verbatim>\<open>arguments\<close>) and pass parsed JSON through. No operation of the program
  computes with a number: a number is tested for truthiness, converted to text, or passed on.
  So a number is kept as the text that JavaScript prints for it (\<^verbatim>\<open>2\<close>, \<^verbatim>\<open>0.5\<close>,
  \<^verbatim>\<open>1e+21\<close>, \<^verbatim>\<open>NaN\<close>); both zeros print as \<^verbatim>\<open>0\<close>. How the engine renders a double in
  decimal is not part of the model.
\<close>

datatype jsval = JUndefined | JNull | JBool bool | JNum string | JStr string
  | JArr "jsval list" | JObj "(string \<times> jsval) list"

text \<open>Reading a property of an object: an absent property reads as \<^verbatim>\<open>undefined\<close>.\<close>

type_synonym jsobj = "string \<Rightarrow> jsval"

text \<open>An object built by assignments, in insertion order (\<^verbatim>\<open>Record<string, string>\<close>).\<close>

type_synonym params = "(string \<times> jsval) list"

fun truthy :: "jsval \<Rightarrow> bool" where
  "truthy JUndefined = False"
| "truthy JNull = False"
| "truthy (JBool b) = b"
| "truthy (JNum n) = (n \<noteq> ''0'' \<and> n \<noteq> ''NaN'')"
| "truthy (JStr s) = (s \<noteq> [])"
| "truthy (JArr xs) = True"
| "truthy (JObj ps) = True"

text \<open>\<^verbatim>\<open>a || b\<close>\<close>

definition js_or :: "jsval \<Rightarrow> jsval \<Rightarrow> jsval" where
  "js_or a b = (if truthy a then a else b)"

definition digit :: "nat \<Rightarrow> char" where
  "digit d = ''0123456789'' ! d"

fun show_nat :: "nat \<Rightarrow> string" where
  "show_nat n = (if n < 10 then [digit n] else show_nat (n div 10) @ [digit (n mod 10)])"

declare show_nat.simps [simp del]

fun join_comma :: "string list \<Rightarrow> string" where
  "join_comma [] = []"
| "join_comma [s] = s"
| "join_comma (s # t # ss) = s @ '','' @ join_comma (t # ss)"

text \<open>\<^verbatim>\<open>String(v)\<close>, which is also what a template literal and \<^verbatim>\<open>URLSearchParams.append\<close>
  apply to a value. An object is taken to have the default \<^verbatim>\<open>toString\<close>; one that carries a
  \<^verbatim>\<open>toString\<close> or \<^verbatim>\<open>valueOf\<close> property of its own is outside the model.\<close>

fun String_js :: "jsval \<Rightarrow> string" where
  "String_js JUndefined = ''undefined''"
| "String_js JNull = ''null''"
| "String_js (JBool b) = (if b then ''true'' else ''false'')"
| "String_js (JNum n) = n"
| "String_js (JStr s) = s"
| "String_js (JArr xs) =
     join_comma (map (\<lambda>x. if x = JUndefined \<or> x = JNull then [] else String_js x) xs)"
| "String_js (JObj ps) = ''[object Object]''"

text \<open>\<^verbatim>\<open>obj.key = value\<close> on an object kept in insertion order.\<close>

fun assign :: "params \<Rightarrow> string \<Rightarrow> jsval \<Rightarrow> params" where
  "assign [] k v = [(k, v)]"
| "assign ((k', v') # ps) k v = (if k' = k then (k, v) # ps else (k', v') # assign ps k v)"

section \<open>Errors, the outbound call and the runtime\<close>

record js_error =
  err_name :: string
  err_message :: string
  err_stack :: string

text \<open>The request handed to \<^verbatim>\<open>fetch\<close>: the text given to \<^verbatim>\<open>new URL\<close>, the pairs appended
  to its \<^verbatim>\<open>searchParams\<close> in order, and the headers.\<close>

record request =
  req_url :: string
  req_search :: "(string \<times> string) list"
  req_headers :: "(string \<times> string) list"

text \<open>\<^verbatim>\<open>json\<close> is what \<^verbatim>\<open>response.json()\<close> settles to: the parsed body, or the error it
  rejects with.\<close>

record response =
  status :: nat
  statusText :: string
  json :: "js_error + jsval"

datatype fetch_outcome = Rejected js_error | Resolved response

text \<open>What the code reads from its surroundings: \<^verbatim>\<open>fetch\<close>, \<^verbatim>\<open>process.env\<close>, the stack trace
  the engine attaches to a new error, and the clock.\<close>

record runtime =
  fetch :: "request \<Rightarrow> fetch_outcome"
  env :: "string \<Rightarrow> string option"
  capture_stack :: "string \<Rightarrow> string"
  now_iso :: string

text \<open>An asynchronous computation: what it settles to (\<open>Inl\<close> a rejection) and the requests
  it handed to \<^verbatim>\<open>fetch\<close>, in order.\<close>

type_synonym 'a eff = "(js_error + 'a) \<times> request list"

definition new_Error :: "runtime \<Rightarrow> string \<Rightarrow> js_error" where
  "new_Error rt msg = \<lparr>err_name = ''Error'', err_message = msg, err_stack = capture_stack rt msg\<rparr>"

definition new_TypeError :: "runtime \<Rightarrow> string \<Rightarrow> js_error" where
  "new_TypeError rt msg =
     \<lparr>err_name = ''TypeError'', err_message = msg, err_stack = capture_stack rt msg\<rparr>"

text \<open>\<^verbatim>\<open>String(error)\<close> for an error object.\<close>

definition String_error :: "js_error \<Rightarrow> string" where
  "String_error e =
     (if err_name e = [] then err_message e
      else if err_message e = [] then err_name e
      else err_name e @ '': '' @ err_message e)"

text \<open>\<^verbatim>\<open>process.env.NAME\<close>\<close>

definition process_env :: "runtime \<Rightarrow> string \<Rightarrow> jsval" where
  "process_env rt name = (case env rt name of None \<Rightarrow> JUndefined | Some s \<Rightarrow> JStr s)"

text \<open>\<^verbatim>\<open>response.ok\<close>\<close>

definition ok :: "response \<Rightarrow> bool" where
  "ok r = (200 \<le> status r \<and> status r \<le> 299)"

section \<open>Upstream client\<close>

definition COINGECKO_BASE_URL :: string where
  "COINGECKO_BASE_URL = ''https://api.coingecko.com/api/v3''"

text \<open>The \<^verbatim>\<open>forEach\<close> over \<^verbatim>\<open>Object.entries(params)\<close>, with the search parameters
  accumulated so far.\<close>

fun append_entries :: "params \<Rightarrow> (string \<times> string) list \<Rightarrow> (string \<times> string) list" where
  "append_entries [] sp = sp"
| "append_entries ((key, val) # rest) sp =
     append_entries rest
       (if val \<noteq> JUndefined \<and> val \<noteq> JNull \<and> val \<noteq> JStr '''' then sp @ [(key, String_js val)]
        else sp)"

definition build_request :: "runtime \<Rightarrow> string \<Rightarrow> params option \<Rightarrow> request" where
  "build_request rt endpoint params =
     \<lparr>req_url = COINGECKO_BASE_URL @ endpoint,
      req_search = (case params of None \<Rightarrow> [] | Some ps \<Rightarrow> append_entries ps []),
      req_headers = [(''Accept'', ''application/json''),
                     (''x-cg-demo-api-key'', String_js (process_env rt ''COINGEKO_API_KEY''))]\<rparr>"

text \<open>\<^verbatim>\<open>`CoinGecko API error: ${response.status} ${response.statusText}`\<close>\<close>

definition api_error_message :: "response \<Rightarrow> string" where
  "api_error_message r = ''CoinGecko API error: '' @ show_nat (status r) @ '' '' @ statusText r"

text \<open>\<^verbatim>\<open>callCoinGeckoAPI\<close> of the routes module.\<close>

definition callCoinGeckoAPI :: "runtime \<Rightarrow> string \<Rightarrow> params option \<Rightarrow> jsval eff" where
  "callCoinGeckoAPI rt endpoint params =
     (let rq = build_request rt endpoint params in
      case fetch rt rq of
        Rejected e \<Rightarrow> (Inl e, [rq])
      | Resolved r \<Rightarrow>
          if \<not> ok r then
            (Inl (new_Error rt (api_error_message r)), [rq])
          else (json r, [rq]))"

text \<open>\<^verbatim>\<open>MCPServer.callCoinGeckoAPI\<close>, the private method of the protocol server.\<close>

definition MCPServer_callCoinGeckoAPI :: "runtime \<Rightarrow> string \<Rightarrow> params option \<Rightarrow> jsval eff" where
  "MCPServer_callCoinGeckoAPI rt endpoint params =
     (let rq = build_request rt endpoint params in
      case fetch rt rq of
        Rejected e \<Rightarrow> (Inl e, [rq])
      | Resolved r \<Rightarrow>
          if \<not> ok r then
            (Inl (new_Error rt (api_error_message r)), [rq])
          else (json r, [rq]))"

section \<open>HTTP routes\<close>

text \<open>What a route handler sends: the status (200 unless \<^verbatim>\<open>res.status\<close> sets it) and the
  object given to \<^verbatim>\<open>res.json\<close>.\<close>

record http_response =
  http_status :: nat
  http_body :: jsval

text \<open>\<^verbatim>\<open>if (v) params.key = v\<close>\<close>

definition add_if_truthy :: "string \<Rightarrow> jsval \<Rightarrow> params \<Rightarrow> params" where
  "add_if_truthy k v ps = (if truthy v then assign ps k v else ps)"

text \<open>\<^verbatim>\<open>if (v !== undefined) params.key = v\<close>\<close>

definition add_if_defined :: "string \<Rightarrow> jsval \<Rightarrow> params \<Rightarrow> params" where
  "add_if_defined k v ps = (if v \<noteq> JUndefined then assign ps k v else ps)"

text \<open>The \<^verbatim>\<open>catch\<close> block of a route: status 500 with the category and the error's message.\<close>

definition route_failure :: "string \<Rightarrow> js_error \<Rightarrow> http_response" where
  "route_failure category error =
     \<lparr>http_status = 500,
      http_body = JObj [(''error'', JStr category), (''message'', JStr (err_message error))]\<rparr>"

text \<open>The \<^verbatim>\<open>params\<close> object of the price route: the two required values, then each optional
  value that is truthy.\<close>

definition route_price_params :: "jsobj \<Rightarrow> params" where
  "route_price_params query =
     (let params = [(''ids'', query ''ids''), (''vs_currencies'', query ''vs_currencies'')];
          params = add_if_truthy ''include_market_cap'' (query ''include_market_cap'') params;
          params = add_if_truthy ''include_24hr_vol'' (query ''include_24hr_vol'') params;
          params = add_if_truthy ''include_24hr_change'' (query ''include_24hr_change'') params;
          params = add_if_truthy ''include_last_updated_at'' (query ''include_last_updated_at'')
                     params;
          params = add_if_truthy ''precision'' (query ''precision'') params
      in params)"

text \<open>\<^verbatim>\<open>GET /simple/price\<close>, given \<^verbatim>\<open>req.query\<close>.\<close>

definition route_simple_price :: "runtime \<Rightarrow> jsobj \<Rightarrow> http_response \<times> request list" where
  "route_simple_price rt query =
     (let ids = query ''ids'';
          vs_currencies = query ''vs_currencies''
      in
      if \<not> truthy ids \<or> \<not> truthy vs_currencies then
        (\<lparr>http_status = 400,
          http_body = JObj [(''error'', JStr ''Missing required parameters''),
                            (''required'', JArr [JStr ''ids'', JStr ''vs_currencies'']),
                            (''message'', JStr ''Both 'ids' and 'vs_currencies' are required parameters'')]\<rparr>,
         [])
      else
        let params = route_price_params query
        in
        case callCoinGeckoAPI rt ''/simple/price'' (Some params) of
          (Inr data, calls) \<Rightarrow>
            (\<lparr>http_status = 200,
              http_body = JObj [(''success'', JBool True), (''data'', data),
                                (''parameters'', JObj params)]\<rparr>, calls)
        | (Inl error, calls) \<Rightarrow> (route_failure ''Failed to fetch price data'' error, calls))"

text \<open>\<^verbatim>\<open>GET /search/trending\<close>\<close>

definition route_trending :: "runtime \<Rightarrow> http_response \<times> request list" where
  "route_trending rt =
     (case callCoinGeckoAPI rt ''/search/trending'' None of
        (Inr data, calls) \<Rightarrow>
          (\<lparr>http_status = 200,
            http_body = JObj [(''success'', JBool True), (''data'', data),
                              (''message'', JStr ''Trending coins fetched successfully'')]\<rparr>, calls)
      | (Inl error, calls) \<Rightarrow> (route_failure ''Failed to fetch trending coins'' error, calls))"

text \<open>\<^verbatim>\<open>GET /coins/list/new\<close>\<close>

definition route_new_coins :: "runtime \<Rightarrow> http_response \<times> request list" where
  "route_new_coins rt =
     (case callCoinGeckoAPI rt ''/coins/list/new'' None of
        (Inr data, calls) \<Rightarrow>
          (\<lparr>http_status = 200,
            http_body = JObj [(''success'', JBool True), (''data'', data),
                              (''message'', JStr ''Newly listed coins fetched successfully'')]\<rparr>, calls)
      | (Inl error, calls) \<Rightarrow> (route_failure ''Failed to fetch new coins'' error, calls))"

text \<open>The six optional keys of the token lookup, each copied when it is not \<^verbatim>\<open>undefined\<close>.\<close>

definition token_params :: "jsobj \<Rightarrow> params" where
  "token_params q =
     (let params = [];
          params = add_if_defined ''localization'' (q ''localization'') params;
          params = add_if_defined ''tickers'' (q ''tickers'') params;
          params = add_if_defined ''market_data'' (q ''market_data'') params;
          params = add_if_defined ''community_data'' (q ''community_data'') params;
          params = add_if_defined ''developer_data'' (q ''developer_data'') params;
          params = add_if_defined ''sparkline'' (q ''sparkline'') params
      in params)"

text \<open>\<^verbatim>\<open>`/coins/${chainId}/contract/${tokenAddress}`\<close>\<close>

definition token_endpoint :: "jsval \<Rightarrow> jsval \<Rightarrow> string" where
  "token_endpoint chainId tokenAddress =
     ''/coins/'' @ String_js chainId @ ''/contract/'' @ String_js tokenAddress"

text \<open>\<^verbatim>\<open>Object.keys(params).length > 0 ? params : undefined\<close>\<close>

definition params_or_undefined :: "params \<Rightarrow> params option" where
  "params_or_undefined params = (if length params > 0 then Some params else None)"

text \<open>\<^verbatim>\<open>GET /coins/:chainId/contract/:tokenAddress\<close>, given \<^verbatim>\<open>req.params\<close> and
  \<^verbatim>\<open>req.query\<close>.\<close>

definition route_token_by_address ::
  "runtime \<Rightarrow> jsobj \<Rightarrow> jsobj \<Rightarrow> http_response \<times> request list" where
  "route_token_by_address rt path_params query =
     (let chainId = path_params ''chainId'';
          tokenAddress = path_params ''tokenAddress''
      in
      if \<not> truthy chainId \<or> \<not> truthy tokenAddress then
        (\<lparr>http_status = 400,
          http_body = JObj [(''error'', JStr ''Missing required path parameters''),
                            (''required'', JArr [JStr ''chainId'', JStr ''tokenAddress'']),
                            (''message'', JStr ''Both 'chainId' and 'tokenAddress' are required in the URL path'')]\<rparr>,
         [])
      else
        let params = token_params query;
            endpoint = token_endpoint chainId tokenAddress
        in
        case callCoinGeckoAPI rt endpoint (params_or_undefined params) of
          (Inr data, calls) \<Rightarrow>
            (\<lparr>http_status = 200,
              http_body = JObj [(''success'', JBool True), (''data'', data),
                                (''parameters'',
                                 JObj ([(''chainId'', chainId), (''tokenAddress'', tokenAddress)]
                                       @ params))]\<rparr>, calls)
        | (Inl error, calls) \<Rightarrow> (route_failure ''Failed to fetch token data'' error, calls))"

section \<open>Protocol server: tools\<close>

text \<open>A text that the code computes: a literal, or \<^verbatim>\<open>JSON.stringify(v, null, 2)\<close> of a value,
  kept as the value that is serialised.\<close>

datatype js_text = Literal string | JSON_stringify jsval

text \<open>\<^verbatim>\<open>{ type: "text", text }\<close> and \<^verbatim>\<open>{ content: [...] }\<close>\<close>

datatype content_block = TextContent js_text

datatype tool_result = ToolResult "content_block list"

definition tool_json :: "jsval \<Rightarrow> tool_result" where
  "tool_json v = ToolResult [TextContent (JSON_stringify v)]"

text \<open>The \<^verbatim>\<open>catch\<close> block of a tool handler.\<close>

definition tool_failure :: "string \<Rightarrow> js_error \<Rightarrow> tool_result" where
  "tool_failure category error =
     tool_json (JObj [(''error'', JStr category), (''message'', JStr (err_message error))])"

text \<open>\<^verbatim>\<open>if (v !== undefined) params.key = String(v)\<close>\<close>

definition add_string_if_defined :: "string \<Rightarrow> jsval \<Rightarrow> params \<Rightarrow> params" where
  "add_string_if_defined k v ps = (if v \<noteq> JUndefined then assign ps k (JStr (String_js v)) else ps)"

text \<open>The \<^verbatim>\<open>params\<close> object of the price tool: the two required values as they are, then
  each optional value that is not \<^verbatim>\<open>undefined\<close>, as text.\<close>

definition tool_price_params :: "jsobj \<Rightarrow> params" where
  "tool_price_params a =
     (let params = [(''ids'', a ''ids''), (''vs_currencies'', a ''vs_currencies'')];
          params = add_string_if_defined ''include_market_cap'' (a ''include_market_cap'') params;
          params = add_string_if_defined ''include_24hr_vol'' (a ''include_24hr_vol'') params;
          params = add_string_if_defined ''include_24hr_change'' (a ''include_24hr_change'') params;
          params = add_string_if_defined ''include_last_updated_at''
                     (a ''include_last_updated_at'') params;
          params = add_string_if_defined ''precision'' (a ''precision'') params
      in params)"

text \<open>The handlers take the request's \<^verbatim>\<open>arguments\<close>, which the protocol allows to be absent
  (\<open>None\<close>); reading a property of \<^verbatim>\<open>undefined\<close> throws inside the \<^verbatim>\<open>try\<close>.\<close>

definition handleGetSimplePrice :: "runtime \<Rightarrow> jsobj option \<Rightarrow> tool_result \<times> request list" where
  "handleGetSimplePrice rt args =
     (case args of
        None \<Rightarrow>
          (tool_failure ''Failed to fetch price data''
             (new_TypeError rt ''Cannot read properties of undefined (reading 'ids')''), [])
      | Some a \<Rightarrow>
          let params = tool_price_params a
          in
          (case MCPServer_callCoinGeckoAPI rt ''/simple/price'' (Some params) of
            (Inr data, calls) \<Rightarrow>
              (tool_json (JObj [(''success'', JBool True), (''data'', data),
                                (''parameters'', JObj params)]), calls)
          | (Inl error, calls) \<Rightarrow> (tool_failure ''Failed to fetch price data'' error, calls)))"

definition handleGetTrendingCoins :: "runtime \<Rightarrow> jsobj option \<Rightarrow> tool_result \<times> request list" where
  "handleGetTrendingCoins rt args =
     (case MCPServer_callCoinGeckoAPI rt ''/search/trending'' None of
        (Inr data, calls) \<Rightarrow>
          (tool_json (JObj [(''success'', JBool True), (''data'', data),
                            (''message'', JStr ''Trending coins fetched successfully'')]), calls)
      | (Inl error, calls) \<Rightarrow> (tool_failure ''Failed to fetch trending coins'' error, calls))"

definition handleGetNewCoins :: "runtime \<Rightarrow> jsobj option \<Rightarrow> tool_result \<times> request list" where
  "handleGetNewCoins rt args =
     (case MCPServer_callCoinGeckoAPI rt ''/coins/list/new'' None of
        (Inr data, calls) \<Rightarrow>
          (tool_json (JObj [(''success'', JBool True), (''data'', data),
                            (''message'', JStr ''Newly listed coins fetched successfully'')]), calls)
      | (Inl error, calls) \<Rightarrow> (tool_failure ''Failed to fetch new coins'' error, calls))"

definition handleGetTokenPriceByAddress ::
  "runtime \<Rightarrow> jsobj option \<Rightarrow> tool_result \<times> request list" where
  "handleGetTokenPriceByAddress rt args =
     (case args of
        None \<Rightarrow>
          (tool_failure ''Failed to fetch token data''
             (new_TypeError rt
                ''Cannot destructure property 'chainId' of 'args' as it is undefined.''), [])
      | Some a \<Rightarrow>
          let chainId = a ''chainId'';
              tokenAddress = a ''tokenAddress'';
              optionalParams = a(''chainId'' := JUndefined, ''tokenAddress'' := JUndefined);
              params = token_params optionalParams;
              endpoint = token_endpoint chainId tokenAddress
          in
          (case MCPServer_callCoinGeckoAPI rt endpoint (params_or_undefined params) of
            (Inr data, calls) \<Rightarrow>
              (tool_json (JObj [(''success'', JBool True), (''data'', data),
                                (''parameters'',
                                 JObj ([(''chainId'', chainId), (''tokenAddress'', tokenAddress)]
                                       @ params))]), calls)
          | (Inl error, calls) \<Rightarrow> (tool_failure ''Failed to fetch token data'' error, calls)))"

text \<open>The handler registered for \<^verbatim>\<open>CallToolRequestSchema\<close>.\<close>

definition call_tool_request :: "runtime \<Rightarrow> string \<Rightarrow> jsobj option \<Rightarrow> tool_result eff" where
  "call_tool_request rt name args =
     (if name = ''get_simple_price'' then
        (case handleGetSimplePrice rt args of (r, calls) \<Rightarrow> (Inr r, calls))
      else if name = ''get_trending_coins'' then
        (case handleGetTrendingCoins rt args of (r, calls) \<Rightarrow> (Inr r, calls))
      else if name = ''get_new_coins'' then
        (case handleGetNewCoins rt args of (r, calls) \<Rightarrow> (Inr r, calls))
      else if name = ''get_token_price_by_address'' then
        (case handleGetTokenPriceByAddress rt args of (r, calls) \<Rightarrow> (Inr r, calls))
      else (Inr (ToolResult [TextContent (Literal (''Error: Unknown tool '' @ name))]), []))"

text \<open>The method \<^verbatim>\<open>MCPServer.callTool\<close>.\<close>

definition callTool :: "runtime \<Rightarrow> string \<Rightarrow> jsobj option \<Rightarrow> tool_result eff" where
  "callTool rt name args =
     (if name = ''get_simple_price'' then
        (case handleGetSimplePrice rt args of (r, calls) \<Rightarrow> (Inr r, calls))
      else if name = ''get_trending_coins'' then
        (case handleGetTrendingCoins rt args of (r, calls) \<Rightarrow> (Inr r, calls))
      else if name = ''get_new_coins'' then
        (case handleGetNewCoins rt args of (r, calls) \<Rightarrow> (Inr r, calls))
      else if name = ''get_token_price_by_address'' then
        (case handleGetTokenPriceByAddress rt args of (r, calls) \<Rightarrow> (Inr r, calls))
      else (Inl (new_Error rt (''Unknown tool: '' @ name)), []))"

section \<open>Facade\<close>

text \<open>\<^verbatim>\<open>ToolController\<close>: each method builds the argument object and calls
  \<^verbatim>\<open>callTool\<close>. An omitted optional argument is \<^verbatim>\<open>undefined\<close>.\<close>

definition no_props :: jsobj where
  "no_props = (\<lambda>k. JUndefined)"

definition getSimplePrice ::
  "runtime \<Rightarrow> jsval \<Rightarrow> jsval \<Rightarrow> jsval \<Rightarrow> jsval \<Rightarrow> jsval \<Rightarrow> jsval \<Rightarrow> jsval \<Rightarrow> tool_result eff" where
  "getSimplePrice rt ids vs_currencies include_market_cap include_24hr_vol include_24hr_change
       include_last_updated_at precision =
     callTool rt ''get_simple_price''
       (Some (no_props(''ids'' := ids, ''vs_currencies'' := vs_currencies,
                ''include_market_cap'' := include_market_cap,
                ''include_24hr_vol'' := include_24hr_vol,
                ''include_24hr_change'' := include_24hr_change,
                ''include_last_updated_at'' := include_last_updated_at,
                ''precision'' := precision)))"




section \<open>Protocol server: prompts\<close>

text \<open>\<^verbatim>\<open>{ role, content: { type: "text", text } }\<close> and \<^verbatim>\<open>{ messages: [...] }\<close>\<close>

datatype prompt_message = PromptMessage string string

datatype prompt_result = PromptResult "prompt_message list"

text \<open>\<^verbatim>\<open>args?.key\<close>\<close>

definition optional_prop :: "jsobj option \<Rightarrow> string \<Rightarrow> jsval" where
  "optional_prop args k = (case args of None \<Rightarrow> JUndefined | Some a \<Rightarrow> a k)"

definition handleCryptoPriceCheckPrompt :: "jsobj option \<Rightarrow> prompt_result" where
  "handleCryptoPriceCheckPrompt args =
     (let tokens = js_or (optional_prop args ''tokens'') (JStr ''bitcoin,ethereum,solana'');
          currencies = js_or (optional_prop args ''currencies'') (JStr ''usd,eur'')
      in PromptResult [PromptMessage ''user''
           (''Please check the current prices for '' @ String_js tokens @ '' in ''
            @ String_js currencies @ ''. Use the get_simple_price tool with these parameters.'')])"

definition handleMarketAnalysisPrompt :: prompt_result where
  "handleMarketAnalysisPrompt =
     PromptResult [PromptMessage ''user''
       (''Please provide a comprehensive crypto market analysis. First, get the trending coins using get_trending_coins, then fetch the newly listed coins using get_new_coins. Analyze the data and provide insights about current market trends.'')]"

definition handleTokenResearchPrompt :: "runtime \<Rightarrow> jsobj option \<Rightarrow> js_error + prompt_result" where
  "handleTokenResearchPrompt rt args =
     (let chain = js_or (optional_prop args ''chain'') (JStr ''ethereum'');
          address = optional_prop args ''address''
      in
      if \<not> truthy address then Inl (new_Error rt ''Token address is required for token research'')
      else Inr (PromptResult [PromptMessage ''user''
             (''Please research the token at address '' @ String_js address @ '' on ''
              @ String_js chain @ '' blockchain. Use the get_token_price_by_address tool with market_data=true to get comprehensive information including price, market cap, volume, and other key metrics.'')]))"

text \<open>The handler registered for \<^verbatim>\<open>GetPromptRequestSchema\<close>.\<close>

definition get_prompt_request :: "runtime \<Rightarrow> string \<Rightarrow> jsobj option \<Rightarrow> js_error + prompt_result" where
  "get_prompt_request rt name args =
     (if name = ''crypto_price_check'' then Inr (handleCryptoPriceCheckPrompt args)
      else if name = ''market_analysis'' then Inr handleMarketAnalysisPrompt
      else if name = ''token_research'' then handleTokenResearchPrompt rt args
      else Inl (new_Error rt (''Unknown prompt: '' @ name)))"

section \<open>Protocol server: resources\<close>

text \<open>\<^verbatim>\<open>{ uri, mimeType, text }\<close> and \<^verbatim>\<open>{ contents: [...] }\<close>\<close>

record resource_content =
  uri :: string
  mimeType :: string
  text_of :: js_text

datatype resource_result = ResourceResult "resource_content list"

text \<open>\<^verbatim>\<open>v.coins\<close>: throws on \<^verbatim>\<open>null\<close> and \<^verbatim>\<open>undefined\<close> (\<open>None\<close>); only an object can
  have the property.\<close>

fun read_coins :: "jsval \<Rightarrow> jsval option" where
  "read_coins JUndefined = None"
| "read_coins JNull = None"
| "read_coins (JObj ps) = Some (case map_of ps ''coins'' of None \<Rightarrow> JUndefined | Some v \<Rightarrow> v)"
| "read_coins v = Some JUndefined"

text \<open>\<^verbatim>\<open>v?.length\<close>; a length is a natural number, printed in decimal.\<close>

fun optional_length :: "jsval \<Rightarrow> jsval" where
  "optional_length (JArr xs) = JNum (show_nat (length xs))"
| "optional_length (JStr s) = JNum (show_nat (length s))"
| "optional_length (JObj ps) = (case map_of ps ''length'' of None \<Rightarrow> JUndefined | Some v \<Rightarrow> v)"
| "optional_length v = JUndefined"

definition handleMarketStatusResource :: "runtime \<Rightarrow> resource_result eff" where
  "handleMarketStatusResource rt =
     (let wrap = (\<lambda>error. new_Error rt (''Failed to fetch market status: '' @ String_error error))
      in
      case MCPServer_callCoinGeckoAPI rt ''/search/trending'' None of
        (Inl error, calls) \<Rightarrow> (Inl (wrap error), calls)
      | (Inr trendingData, calls) \<Rightarrow>
          (case MCPServer_callCoinGeckoAPI rt ''/simple/price''
                  (Some [(''ids'', JStr ''bitcoin,ethereum''), (''vs_currencies'', JStr ''usd''),
                         (''include_market_cap'', JStr ''true''),
                         (''include_24hr_vol'', JStr ''true''),
                         (''include_24hr_change'', JStr ''true'')]) of
             (Inl error, calls') \<Rightarrow> (Inl (wrap error), calls @ calls')
           | (Inr priceData, calls') \<Rightarrow>
               (case read_coins trendingData of
                  None \<Rightarrow>
                    (Inl (wrap (new_TypeError rt
                            (''Cannot read properties of '' @ String_js trendingData
                             @ '' (reading 'coins')''))),
                     calls @ calls')
                | Some coins \<Rightarrow>
                    (Inr (ResourceResult
                       [\<lparr>uri = ''coingecko://market/status'', mimeType = ''application/json'',
                         text_of = JSON_stringify (JObj
                           [(''status'', JStr ''active''),
                            (''timestamp'', JStr (now_iso rt)),
                            (''topCoins'', priceData),
                            (''trendingCount'', js_or (optional_length coins) (JNum ''0'')),
                            (''summary'', JStr ''Live crypto market data from CoinGecko'')])\<rparr>]),
                     calls @ calls'))))"

definition handleTrendingCoinsResource :: "runtime \<Rightarrow> resource_result eff" where
  "handleTrendingCoinsResource rt =
     (case MCPServer_callCoinGeckoAPI rt ''/search/trending'' None of
        (Inr data, calls) \<Rightarrow>
          (Inr (ResourceResult
             [\<lparr>uri = ''coingecko://trending/coins'', mimeType = ''application/json'',
               text_of = JSON_stringify data\<rparr>]), calls)
      | (Inl error, calls) \<Rightarrow>
          (Inl (new_Error rt (''Failed to fetch trending coins: '' @ String_error error)), calls))"

definition handleNewCoinsResource :: "runtime \<Rightarrow> resource_result eff" where
  "handleNewCoinsResource rt =
     (case MCPServer_callCoinGeckoAPI rt ''/coins/list/new'' None of
        (Inr data, calls) \<Rightarrow>
          (Inr (ResourceResult
             [\<lparr>uri = ''coingecko://new/coins'', mimeType = ''application/json'',
               text_of = JSON_stringify data\<rparr>]), calls)
      | (Inl error, calls) \<Rightarrow>
          (Inl (new_Error rt (''Failed to fetch new coins: '' @ String_error error)), calls))"

definition apiInfo :: string where
  "apiInfo =
       ''CoinGecko API Information\<newline>'' @
       ''=============================\<newline>'' @
       ''\<newline>'' @
       ''Base URL: https://api.coingecko.com/api/v3\<newline>'' @
       ''\<newline>'' @
       ''Available Tools:\<newline>'' @
       ''1. get_simple_price - Get current prices for cryptocurrencies\<newline>'' @
       ''   Endpoint: /simple/price\<newline>'' @
       ''   Required: ids, vs_currencies\<newline>'' @
       ''   \<newline>'' @
       ''2. get_trending_coins - Get trending cryptocurrencies\<newline>'' @
       ''   Endpoint: /search/trending\<newline>'' @
       ''   \<newline>'' @
       ''3. get_new_coins - Get newly listed coins\<newline>'' @
       ''   Endpoint: /coins/list/new\<newline>'' @
       ''   \<newline>'' @
       ''4. get_token_price_by_address - Get token info by contract address\<newline>'' @
       ''   Endpoint: /coins/{chainId}/contract/{tokenAddress}\<newline>'' @
       ''   Required: chainId, tokenAddress\<newline>'' @
       ''\<newline>'' @
       ''Supported Blockchains:\<newline>'' @
       ''- ethereum\<newline>'' @
       ''- polygon-pos\<newline>'' @
       ''- binance-smart-chain\<newline>'' @
       ''- avalanche\<newline>'' @
       ''- arbitrum-one\<newline>'' @
       ''- optimistic-ethereum\<newline>'' @
       ''- base\<newline>'' @
       ''- And many more...\<newline>'' @
       ''\<newline>'' @
       ''Rate Limits:\<newline>'' @
       ''- Demo API: 30 calls/minute\<newline>'' @
       ''- Pro API: Higher limits available\<newline>'' @
       ''\<newline>'' @
       ''Authentication:\<newline>'' @
       ''- API Key via x-cg-demo-api-key header\<newline>'' @
       ''''"

definition handleApiInfoResource :: resource_result where
  "handleApiInfoResource =
     ResourceResult [\<lparr>uri = ''coingecko://api/info'', mimeType = ''text/plain'',
                      text_of = Literal apiInfo\<rparr>]"

text \<open>The handler registered for \<^verbatim>\<open>ReadResourceRequestSchema\<close>.\<close>

definition read_resource_request :: "runtime \<Rightarrow> string \<Rightarrow> resource_result eff" where
  "read_resource_request rt u =
     (if u = ''coingecko://market/status'' then handleMarketStatusResource rt
      else if u = ''coingecko://trending/coins'' then handleTrendingCoinsResource rt
      else if u = ''coingecko://new/coins'' then handleNewCoinsResource rt
      else if u = ''coingecko://api/info'' then (Inr handleApiInfoResource, [])
      else (Inl (new_Error rt (''Unknown resource: '' @ u)), []))"

section \<open>Payment configuration and the application\<close>

text \<open>\<^verbatim>\<open>a && b\<close>\<close>

definition js_and :: "jsval \<Rightarrow> jsval \<Rightarrow> jsval" where
  "js_and a b = (if truthy a then b else a)"

text \<open>\<^verbatim>\<open>payment.config.ts\<close>, as listed in the repository's guide: the two getters read the
  environment, \<^verbatim>\<open>process.env.NAME || null\<close>.\<close>

definition getFacilitatorUrl :: "runtime \<Rightarrow> jsval" where
  "getFacilitatorUrl rt = js_or (process_env rt ''FACILITATOR_URL'') JNull"

definition getPaymentAddress :: "runtime \<Rightarrow> jsval" where
  "getPaymentAddress rt = js_or (process_env rt ''ADDRESS'') JNull"

definition isPaymentConfigured :: "runtime \<Rightarrow> bool" where
  "isPaymentConfigured rt = truthy (js_and (getFacilitatorUrl rt) (getPaymentAddress rt))"

text \<open>\<^verbatim>\<open>PAYMENT_CONFIG\<close>: a price and a network for each tool and for the JSON-RPC endpoint.
  Its values are a parameter of the application.\<close>

record payment_rule =
  price :: string
  network :: string

record payment_config =
  tool_get_simple_price :: payment_rule
  tool_get_trending_coins :: payment_rule
  tool_get_new_coins :: payment_rule
  tool_get_token_price_by_address :: payment_rule
  jsonRpc :: payment_rule

datatype router = HealthRoutes | McpRoutes | CoingeckoRoutes

text \<open>What \<^verbatim>\<open>app.use\<close> installs, in order. \<open>PaymentMiddleware payTo routes url\<close> is
  \<^verbatim>\<open>paymentMiddleware(payTo, routes, { url })\<close> of the payment library.\<close>

datatype middleware = Cors | ExpressJson
  | PaymentMiddleware jsval "(string \<times> payment_rule) list" jsval
  | Use string router
  | ErrorHandler

text \<open>The route-to-price table of \<^verbatim>\<open>index.ts\<close>.\<close>

definition payment_routes :: "payment_config \<Rightarrow> (string \<times> payment_rule) list" where
  "payment_routes cfg =
     [(''GET /mcp/simple/price'', tool_get_simple_price cfg),
      (''GET /mcp/search/trending'', tool_get_trending_coins cfg),
      (''GET /mcp/coins/list/new'', tool_get_new_coins cfg),
      (''GET /mcp/coins/:chainId/contract/:tokenAddress'', tool_get_token_price_by_address cfg),
      (''GET /mcp'', jsonRpc cfg)]"

text \<open>The middleware stack that \<^verbatim>\<open>index.ts\<close> builds when the process starts.\<close>

definition app_middleware :: "payment_config \<Rightarrow> runtime \<Rightarrow> middleware list" where
  "app_middleware cfg rt =
     (let facilitatorUrl = getFacilitatorUrl rt;
          payTo = getPaymentAddress rt
      in
      [Cors, ExpressJson]
      @ (if truthy (js_and facilitatorUrl payTo)
         then [PaymentMiddleware payTo (payment_routes cfg) facilitatorUrl] else [])
      @ [Use ''/'' HealthRoutes, Use ''/mcp'' McpRoutes, Use ''/mcp'' CoingeckoRoutes,
         ErrorHandler])"

text \<open>The routes that the CoinGecko router registers, all with method GET.\<close>

definition coingecko_routes :: "string list" where
  "coingecko_routes =
     [''/simple/price'', ''/search/trending'', ''/coins/list/new'',
      ''/coins/:chainId/contract/:tokenAddress'']"

fun is_payment :: "middleware \<Rightarrow> bool" where
  "is_payment (PaymentMiddleware p t u) = True"
| "is_payment m = False"

text \<open>The two states of the payment gate, read off the installed stack.\<close>

datatype gate_state = Disabled | Enabled

definition payment_gate :: "middleware list \<Rightarrow> gate_state" where
  "payment_gate stack = (if list_ex is_payment stack then Enabled else Disabled)"

fun mounts :: "router \<Rightarrow> middleware \<Rightarrow> bool" where
  "mounts r (Use path r') = (r' = r)"
| "mounts r m = False"

text \<open>The payment middleware that a request passes before it reaches a router's mount.\<close>

definition gates_ahead_of :: "router \<Rightarrow> middleware list \<Rightarrow> middleware list" where
  "gates_ahead_of r stack = filter is_payment (takeWhile (\<lambda>m. \<not> mounts r m) stack)"

text \<open>An environment variable is configured when it is set to a non-empty text.\<close>

definition configured :: "runtime \<Rightarrow> string \<Rightarrow> bool" where
  "configured rt name = (case env rt name of None \<Rightarrow> False | Some s \<Rightarrow> s \<noteq> [])"

section \<open>Notions used to state the properties\<close>

text \<open>What the upstream client settles to, without the record of its request.\<close>

definition upstream :: "runtime \<Rightarrow> string \<Rightarrow> params option \<Rightarrow> js_error + jsval" where
  "upstream rt endpoint params = fst (callCoinGeckoAPI rt endpoint params)"

text \<open>The envelopes as the specification words them: a success with the echoed parameters, a
  success with a fixed message, and a failure with a category and a message.\<close>

definition success_with_parameters :: "jsval \<Rightarrow> params \<Rightarrow> jsval" where
  "success_with_parameters data ps =
     JObj [(''success'', JBool True), (''data'', data), (''parameters'', JObj ps)]"

definition success_with_message :: "jsval \<Rightarrow> string \<Rightarrow> jsval" where
  "success_with_message data msg =
     JObj [(''success'', JBool True), (''data'', data), (''message'', JStr msg)]"

definition failure_envelope :: "string \<Rightarrow> string \<Rightarrow> jsval" where
  "failure_envelope category msg = JObj [(''error'', JStr category), (''message'', JStr msg)]"




definition token_optional_keys :: "string list" where
  "token_optional_keys =
     [''localization'', ''tickers'', ''market_data'', ''community_data'', ''developer_data'',
      ''sparkline'']"


section \<open>Example runtimes\<close>

definition sample_body :: jsval where
  "sample_body = JObj [(''bitcoin'', JObj [(''usd'', JNum ''50000'')])]"

definition no_env :: "string \<Rightarrow> string option" where
  "no_env = (\<lambda>name. None)"

text \<open>An upstream that answers every request with 200 and \<open>sample_body\<close>.\<close>

definition rt_ok :: runtime where
  "rt_ok = \<lparr>fetch = (\<lambda>rq. Resolved \<lparr>status = 200, statusText = ''OK'', json = Inr sample_body\<rparr>),
            env = no_env, capture_stack = (\<lambda>msg. ''at callCoinGeckoAPI''),
            now_iso = ''2025-11-11T08:00:00.000Z''\<rparr>"

text \<open>An upstream that answers every request with 404.\<close>

definition rt_404 :: runtime where
  "rt_404 = \<lparr>fetch = (\<lambda>rq. Resolved \<lparr>status = 404, statusText = ''Not Found'',
                                        json = Inr (JObj [(''error'', JStr ''coin not found'')])\<rparr>),
             env = no_env, capture_stack = (\<lambda>msg. ''at callCoinGeckoAPI''),
             now_iso = ''2025-11-11T08:00:00.000Z''\<rparr>"

text \<open>An upstream that cannot be reached: \<^verbatim>\<open>fetch\<close> rejects.\<close>

definition rt_down :: runtime where
  "rt_down = \<lparr>fetch = (\<lambda>rq. Rejected \<lparr>err_name = ''TypeError'', err_message = ''fetch failed'',
                                         err_stack = ''at node:internal/deps/undici''\<rparr>),
              env = no_env, capture_stack = (\<lambda>msg. ''at callCoinGeckoAPI''),
              now_iso = ''2025-11-11T08:00:00.000Z''\<rparr>"

text \<open>An environment with the facilitator URL and the payout address set, and one with the
  address left out.\<close>

definition rt_paid :: runtime where
  "rt_paid = rt_ok\<lparr>env := no_env(''FACILITATOR_URL'' \<mapsto> ''https://x402.org/facilitator'',
                                  ''ADDRESS'' \<mapsto> ''0xABC'')\<rparr>"

definition rt_unpaid :: runtime where
  "rt_unpaid = rt_ok\<lparr>env := no_env(''FACILITATOR_URL'' \<mapsto> ''https://x402.org/facilitator'')\<rparr>"

definition sample_config :: payment_config where
  "sample_config =
     (let rule = \<lparr>price = ''$0.001'', network = ''base-sepolia''\<rparr>
      in \<lparr>tool_get_simple_price = rule, tool_get_trending_coins = rule,
          tool_get_new_coins = rule, tool_get_token_price_by_address = rule, jsonRpc = rule\<rparr>)"

section \<open>The upstream client and the handlers, equationally\<close>

lemma append_entries_acc:
  "append_entries ps sp =
     sp @ map (\<lambda>(k, v). (k, String_js v))
            (filter (\<lambda>(k, v). v \<noteq> JUndefined \<and> v \<noteq> JNull \<and> v \<noteq> JStr '''') ps)"
  by (induction ps sp rule: append_entries.induct) simp_all

lemma MCPServer_callCoinGeckoAPI_eq:
  "MCPServer_callCoinGeckoAPI rt endpoint params = callCoinGeckoAPI rt endpoint params"
  by (simp add: MCPServer_callCoinGeckoAPI_def callCoinGeckoAPI_def)

lemma callCoinGeckoAPI_calls:
  "snd (callCoinGeckoAPI rt endpoint params) = [build_request rt endpoint params]"
  by (simp add: callCoinGeckoAPI_def Let_def split: fetch_outcome.splits)

lemma callCoinGeckoAPI_pair:
  "callCoinGeckoAPI rt endpoint params =
     (fst (callCoinGeckoAPI rt endpoint params), [build_request rt endpoint params])"
  by (metis callCoinGeckoAPI_calls prod.collapse)

lemma callCoinGeckoAPI_rejected:
  "fetch rt (build_request rt endpoint params) = Rejected e \<Longrightarrow>
   fst (callCoinGeckoAPI rt endpoint params) = Inl e"
  by (simp add: callCoinGeckoAPI_def Let_def)

lemma callCoinGeckoAPI_ok:
  "fetch rt (build_request rt endpoint params) = Resolved r \<Longrightarrow> ok r \<Longrightarrow>
   fst (callCoinGeckoAPI rt endpoint params) = json r"
  by (simp add: callCoinGeckoAPI_def Let_def)

lemma callCoinGeckoAPI_not_ok:
  "fetch rt (build_request rt endpoint params) = Resolved r \<Longrightarrow> \<not> ok r \<Longrightarrow>
   fst (callCoinGeckoAPI rt endpoint params) = Inl (new_Error rt (api_error_message r))"
  by (simp add: callCoinGeckoAPI_def Let_def)

lemma route_trending_eq:
  "route_trending rt =
     (case fst (callCoinGeckoAPI rt ''/search/trending'' None) of
        Inr data \<Rightarrow>
          \<lparr>http_status = 200,
           http_body = JObj [(''success'', JBool True), (''data'', data),
                             (''message'', JStr ''Trending coins fetched successfully'')]\<rparr>
      | Inl error \<Rightarrow> route_failure ''Failed to fetch trending coins'' error,
      [build_request rt ''/search/trending'' None])"
  unfolding route_trending_def
  by (subst callCoinGeckoAPI_pair) (simp add: Let_def split: sum.splits)

lemma route_new_coins_eq:
  "route_new_coins rt =
     (case fst (callCoinGeckoAPI rt ''/coins/list/new'' None) of
        Inr data \<Rightarrow>
          \<lparr>http_status = 200,
           http_body = JObj [(''success'', JBool True), (''data'', data),
                             (''message'', JStr ''Newly listed coins fetched successfully'')]\<rparr>
      | Inl error \<Rightarrow> route_failure ''Failed to fetch new coins'' error,
      [build_request rt ''/coins/list/new'' None])"
  unfolding route_new_coins_def
  by (subst callCoinGeckoAPI_pair) (simp add: Let_def split: sum.splits)

lemma route_simple_price_missing:
  "\<not> truthy (query ''ids'') \<or> \<not> truthy (query ''vs_currencies'') \<Longrightarrow>
   route_simple_price rt query =
     (\<lparr>http_status = 400,
       http_body = JObj [(''error'', JStr ''Missing required parameters''),
                         (''required'', JArr [JStr ''ids'', JStr ''vs_currencies'']),
                         (''message'', JStr ''Both 'ids' and 'vs_currencies' are required parameters'')]\<rparr>,
      [])"
  by (auto simp: route_simple_price_def)

lemma route_simple_price_valid:
  "truthy (query ''ids'') \<Longrightarrow> truthy (query ''vs_currencies'') \<Longrightarrow>
   route_simple_price rt query =
     (case fst (callCoinGeckoAPI rt ''/simple/price'' (Some (route_price_params query))) of
        Inr data \<Rightarrow>
          \<lparr>http_status = 200,
           http_body = JObj [(''success'', JBool True), (''data'', data),
                             (''parameters'', JObj (route_price_params query))]\<rparr>
      | Inl error \<Rightarrow> route_failure ''Failed to fetch price data'' error,
      [build_request rt ''/simple/price'' (Some (route_price_params query))])"
  unfolding route_simple_price_def
  by (subst callCoinGeckoAPI_pair) (simp add: Let_def split: sum.splits)

lemma route_token_missing:
  "\<not> truthy (path_params ''chainId'') \<or> \<not> truthy (path_params ''tokenAddress'') \<Longrightarrow>
   route_token_by_address rt path_params query =
     (\<lparr>http_status = 400,
       http_body = JObj [(''error'', JStr ''Missing required path parameters''),
                         (''required'', JArr [JStr ''chainId'', JStr ''tokenAddress'']),
                         (''message'', JStr ''Both 'chainId' and 'tokenAddress' are required in the URL path'')]\<rparr>,
      [])"
  by (auto simp: route_token_by_address_def)

lemma route_token_valid:
  "truthy (path_params ''chainId'') \<Longrightarrow> truthy (path_params ''tokenAddress'') \<Longrightarrow>
   route_token_by_address rt path_params query =
     (case fst (callCoinGeckoAPI rt
                 (token_endpoint (path_params ''chainId'') (path_params ''tokenAddress''))
                 (params_or_undefined (token_params query))) of
        Inr data \<Rightarrow>
          \<lparr>http_status = 200,
           http_body = JObj [(''success'', JBool True), (''data'', data),
                             (''parameters'',
                              JObj ([(''chainId'', path_params ''chainId''),
                                     (''tokenAddress'', path_params ''tokenAddress'')]
                                    @ token_params query))]\<rparr>
      | Inl error \<Rightarrow> route_failure ''Failed to fetch token data'' error,
      [build_request rt (token_endpoint (path_params ''chainId'') (path_params ''tokenAddress''))
         (params_or_undefined (token_params query))])"
  unfolding route_token_by_address_def
  by (subst callCoinGeckoAPI_pair) (simp add: Let_def split: sum.splits)

lemma handleGetTrendingCoins_eq:
  "handleGetTrendingCoins rt args =
     (case fst (callCoinGeckoAPI rt ''/search/trending'' None) of
        Inr data \<Rightarrow>
          tool_json (JObj [(''success'', JBool True), (''data'', data),
                           (''message'', JStr ''Trending coins fetched successfully'')])
      | Inl error \<Rightarrow> tool_failure ''Failed to fetch trending coins'' error,
      [build_request rt ''/search/trending'' None])"
  unfolding handleGetTrendingCoins_def MCPServer_callCoinGeckoAPI_eq
  by (subst callCoinGeckoAPI_pair) (simp add: Let_def split: sum.splits)

lemma handleGetNewCoins_eq:
  "handleGetNewCoins rt args =
     (case fst (callCoinGeckoAPI rt ''/coins/list/new'' None) of
        Inr data \<Rightarrow>
          tool_json (JObj [(''success'', JBool True), (''data'', data),
                           (''message'', JStr ''Newly listed coins fetched successfully'')])
      | Inl error \<Rightarrow> tool_failure ''Failed to fetch new coins'' error,
      [build_request rt ''/coins/list/new'' None])"
  unfolding handleGetNewCoins_def MCPServer_callCoinGeckoAPI_eq
  by (subst callCoinGeckoAPI_pair) (simp add: Let_def split: sum.splits)

lemma handleGetSimplePrice_eq:
  "handleGetSimplePrice rt (Some a) =
     (case fst (callCoinGeckoAPI rt ''/simple/price'' (Some (tool_price_params a))) of
        Inr data \<Rightarrow>
          tool_json (JObj [(''success'', JBool True), (''data'', data),
                           (''parameters'', JObj (tool_price_params a))])
      | Inl error \<Rightarrow> tool_failure ''Failed to fetch price data'' error,
      [build_request rt ''/simple/price'' (Some (tool_price_params a))])"
  unfolding handleGetSimplePrice_def MCPServer_callCoinGeckoAPI_eq
  by (subst callCoinGeckoAPI_pair) (simp add: Let_def split: sum.splits)

lemma handleGetTokenPriceByAddress_eq:
  "handleGetTokenPriceByAddress rt (Some a) =
     (case fst (callCoinGeckoAPI rt (token_endpoint (a ''chainId'') (a ''tokenAddress''))
                 (params_or_undefined (token_params a))) of
        Inr data \<Rightarrow>
          tool_json (JObj [(''success'', JBool True), (''data'', data),
                           (''parameters'',
                            JObj ([(''chainId'', a ''chainId''),
                                   (''tokenAddress'', a ''tokenAddress'')] @ token_params a))])
      | Inl error \<Rightarrow> tool_failure ''Failed to fetch token data'' error,
      [build_request rt (token_endpoint (a ''chainId'') (a ''tokenAddress''))
         (params_or_undefined (token_params a))])"
proof -
  have rest: "token_params (a(''chainId'' := JUndefined, ''tokenAddress'' := JUndefined)) =
      token_params a"
    by (simp add: token_params_def)
  show ?thesis
    unfolding handleGetTokenPriceByAddress_def MCPServer_callCoinGeckoAPI_eq
    by (subst callCoinGeckoAPI_pair) (simp add: Let_def rest split: sum.splits)
qed

lemma callTool_known:
  "callTool rt ''get_simple_price'' args =
     (Inr (fst (handleGetSimplePrice rt args)), snd (handleGetSimplePrice rt args))"
  "callTool rt ''get_trending_coins'' args =
     (Inr (fst (handleGetTrendingCoins rt args)), snd (handleGetTrendingCoins rt args))"
  "callTool rt ''get_new_coins'' args =
     (Inr (fst (handleGetNewCoins rt args)), snd (handleGetNewCoins rt args))"
  "callTool rt ''get_token_price_by_address'' args =
     (Inr (fst (handleGetTokenPriceByAddress rt args)),
      snd (handleGetTokenPriceByAddress rt args))"
  by (simp_all add: callTool_def split: prod.splits)

lemma call_tool_request_known:
  "call_tool_request rt ''get_simple_price'' args =
     (Inr (fst (handleGetSimplePrice rt args)), snd (handleGetSimplePrice rt args))"
  "call_tool_request rt ''get_trending_coins'' args =
     (Inr (fst (handleGetTrendingCoins rt args)), snd (handleGetTrendingCoins rt args))"
  "call_tool_request rt ''get_new_coins'' args =
     (Inr (fst (handleGetNewCoins rt args)), snd (handleGetNewCoins rt args))"
  "call_tool_request rt ''get_token_price_by_address'' args =
     (Inr (fst (handleGetTokenPriceByAddress rt args)),
      snd (handleGetTokenPriceByAddress rt args))"
  by (simp_all add: call_tool_request_def split: prod.splits)














lemma getter_truthy:
  "truthy (js_or (process_env rt name) JNull) = configured rt name"
  by (simp add: js_or_def process_env_def configured_def split: option.splits)

lemma getter_value:
  "configured rt name \<Longrightarrow> js_or (process_env rt name) JNull = JStr (the (env rt name))"
  by (auto simp: js_or_def process_env_def configured_def split: option.splits)

lemma gate_condition:
  "truthy (js_and (getFacilitatorUrl rt) (getPaymentAddress rt)) =
     (configured rt ''FACILITATOR_URL'' \<and> configured rt ''ADDRESS'')"
  by (simp add: js_and_def getFacilitatorUrl_def getPaymentAddress_def getter_truthy)

lemma not_truthy_absent:
  "v \<in> {JUndefined, JNull, JStr ''''} \<Longrightarrow> \<not> truthy v"
  by auto

lemma token_params_none:
  "\<forall>k \<in> set token_optional_keys. q k = JUndefined \<Longrightarrow> token_params q = []"
  by (simp add: token_params_def token_optional_keys_def add_if_defined_def)

section \<open>Properties\<close>

subsection \<open>Validation before the outbound call\<close>

text \<open>
  Claim C1 says that on every surface a price lookup or token lookup with a required input
  absent (undefined, null or empty) fails with a validation error and never reaches
  \<^verbatim>\<open>fetch\<close>. The HTTP routes do that; the tool handlers and the facade have no such check.
  Evaluated here: the facade's price lookup with \<^verbatim>\<open>ids = ""\<close> hands a request to
  \<^verbatim>\<open>fetch\<close> and returns a success envelope, and the tool call for a token lookup without
  \<^verbatim>\<open>chainId\<close> requests the path \<^verbatim>\<open>/coins/undefined/contract/0xABC\<close>.
\<close>

theorem tool_surface_skips_validation:
  "getSimplePrice rt_ok (JStr '''') (JStr ''usd'') JUndefined JUndefined JUndefined JUndefined
       JUndefined =
     (Inr (tool_json (JObj [(''success'', JBool True), (''data'', sample_body),
                            (''parameters'', JObj [(''ids'', JStr ''''),
                                                   (''vs_currencies'', JStr ''usd'')])])),
      [\<lparr>req_url = ''https://api.coingecko.com/api/v3/simple/price'',
        req_search = [(''vs_currencies'', ''usd'')],
        req_headers = [(''Accept'', ''application/json''), (''x-cg-demo-api-key'', ''undefined'')]\<rparr>])
   \<and> call_tool_request rt_ok ''get_token_price_by_address''
         (Some (no_props(''tokenAddress'' := JStr ''0xABC''))) =
     (Inr (tool_json (JObj [(''success'', JBool True), (''data'', sample_body),
                            (''parameters'', JObj [(''chainId'', JUndefined),
                                                   (''tokenAddress'', JStr ''0xABC'')])])),
      [\<lparr>req_url = ''https://api.coingecko.com/api/v3/coins/undefined/contract/0xABC'',
        req_search = [],
        req_headers = [(''Accept'', ''application/json''), (''x-cg-demo-api-key'', ''undefined'')]\<rparr>])"
  by (simp add: getSimplePrice_def callTool_known call_tool_request_known
      handleGetSimplePrice_eq handleGetTokenPriceByAddress_eq tool_price_params_def
      add_string_if_defined_def token_params_def add_if_defined_def params_or_undefined_def
      token_endpoint_def no_props_def callCoinGeckoAPI_def build_request_def rt_ok_def ok_def
      COINGECKO_BASE_URL_def process_env_def no_env_def)

subsection \<open>Agreement of the three surfaces\<close>




subsection \<open>Envelopes\<close>




subsection \<open>The query of the outbound request\<close>

text \<open>
  Claim C4: the upstream client hands exactly one request to \<^verbatim>\<open>fetch\<close>, for the base address
  joined with the path; to its query it appends, in order, exactly the entries of the
  parameter object whose value is not \<^verbatim>\<open>undefined\<close>, not \<^verbatim>\<open>null\<close> and not the empty text, each
  value as text (\<^verbatim>\<open>true\<close> or \<^verbatim>\<open>false\<close> for a boolean, the text JavaScript prints for a
  number), and nothing when no parameter object is given. The price tool puts an optional
  boolean or number into the parameter object as that text, and leaves an \<^verbatim>\<open>undefined\<close> one
  out.
\<close>

theorem upstream_query_filter:
  "snd (callCoinGeckoAPI rt endpoint params) = [build_request rt endpoint params]
   \<and> snd (MCPServer_callCoinGeckoAPI rt endpoint params) = [build_request rt endpoint params]
   \<and> req_url (build_request rt endpoint params) = COINGECKO_BASE_URL @ endpoint
   \<and> req_search (build_request rt endpoint None) = []
   \<and> req_search (build_request rt endpoint (Some ps)) =
        map (\<lambda>(k, v). (k, String_js v))
          (filter (\<lambda>(k, v). v \<noteq> JUndefined \<and> v \<noteq> JNull \<and> v \<noteq> JStr '''') ps)
   \<and> String_js (JBool True) = ''true'' \<and> String_js (JBool False) = ''false''
   \<and> String_js (JNum n) = n
   \<and> add_string_if_defined k (JBool b) qs = assign qs k (JStr (if b then ''true'' else ''false''))
   \<and> add_string_if_defined k (JNum n) qs = assign qs k (JStr n)
   \<and> add_string_if_defined k JUndefined qs = qs"
  by (simp add: MCPServer_callCoinGeckoAPI_eq callCoinGeckoAPI_calls build_request_def
      append_entries_acc add_string_if_defined_def)

text \<open>An instance of the statement above, evaluated.\<close>

theorem upstream_query_filter_witness:
  "req_search (build_request rt_ok ''/simple/price''
      (Some [(''ids'', JStr ''bitcoin''), (''vs_currencies'', JStr ''''),
             (''include_market_cap'', JBool True), (''precision'', JNum ''2''),
             (''a'', JNull), (''b'', JUndefined), (''c'', JNum ''1e+21'')])) =
     [(''ids'', ''bitcoin''), (''include_market_cap'', ''true''), (''precision'', ''2''),
      (''c'', ''1e+21'')]
   \<and> tool_price_params (no_props(''ids'' := JStr ''bitcoin'', ''vs_currencies'' := JStr ''usd'',
        ''include_24hr_vol'' := JBool False, ''precision'' := JNum ''1e+21'')) =
     [(''ids'', JStr ''bitcoin''), (''vs_currencies'', JStr ''usd''),
      (''include_24hr_vol'', JStr ''false''), (''precision'', JStr ''1e+21'')]"
  using upstream_query_filter [where rt = rt_ok and endpoint = "''/simple/price''"
      and params = None and n = "''1e+21''" and k = "''precision''" and b = False
      and qs = "[(''ids'', JStr ''bitcoin''), (''vs_currencies'', JStr ''usd''),
                 (''include_24hr_vol'', JStr ''false'')]"
      and ps = "[(''ids'', JStr ''bitcoin''), (''vs_currencies'', JStr ''''),
                 (''include_market_cap'', JBool True), (''precision'', JNum ''2''),
                 (''a'', JNull), (''b'', JUndefined), (''c'', JNum ''1e+21'')]"]
    upstream_query_filter [where rt = rt_ok and endpoint = "''/simple/price''"
      and params = None and n = "''2''" and k = "''include_24hr_vol''" and b = False
      and qs = "[(''ids'', JStr ''bitcoin''), (''vs_currencies'', JStr ''usd'')]"
      and ps = "[]"]
  by (simp add: tool_price_params_def add_string_if_defined_def no_props_def)

subsection \<open>Status handling and single fetch\<close>

text \<open>
  Claim C5: when the response status is 2xx the upstream client returns what
  \<^verbatim>\<open>response.json()\<close> gives; otherwise it fails with an error whose message holds the numeric
  status and the status text. Each client call performs exactly one \<^verbatim>\<open>fetch\<close>, and each of
  the four operations, on the HTTP and on the tool surface, performs one when it reaches the
  client and none otherwise, so nothing is retried. A non-2xx answer to the trending lookup
  gives the failure envelope with that message, with status 500 on the HTTP surface.
\<close>

theorem upstream_status_single_fetch:
  "(\<forall>r. fetch rt (build_request rt endpoint params) = Resolved r \<longrightarrow>
      (ok r \<longrightarrow> upstream rt endpoint params = json r) \<and>
      (\<not> ok r \<longrightarrow>
         upstream rt endpoint params = Inl (new_Error rt (api_error_message r)) \<and>
         err_message (new_Error rt (api_error_message r)) =
           ''CoinGecko API error: '' @ show_nat (status r) @ '' '' @ statusText r))
   \<and> MCPServer_callCoinGeckoAPI rt endpoint params = callCoinGeckoAPI rt endpoint params
   \<and> length (snd (callCoinGeckoAPI rt endpoint params)) = 1
   \<and> length (snd (route_trending rt)) = 1
   \<and> length (snd (route_new_coins rt)) = 1
   \<and> length (snd (route_simple_price rt q)) =
        (if truthy (q ''ids'') \<and> truthy (q ''vs_currencies'') then 1 else 0)
   \<and> length (snd (route_token_by_address rt p q)) =
        (if truthy (p ''chainId'') \<and> truthy (p ''tokenAddress'') then 1 else 0)
   \<and> length (snd (handleGetTrendingCoins rt args)) = 1
   \<and> length (snd (handleGetNewCoins rt args)) = 1
   \<and> length (snd (handleGetSimplePrice rt args)) = (if args = None then 0 else 1)
   \<and> length (snd (handleGetTokenPriceByAddress rt args)) = (if args = None then 0 else 1)
   \<and> (\<forall>r. fetch rt (build_request rt ''/search/trending'' None) = Resolved r \<and> \<not> ok r \<longrightarrow>
        route_trending rt =
          (\<lparr>http_status = 500,
            http_body = failure_envelope ''Failed to fetch trending coins''
                          (''CoinGecko API error: '' @ show_nat (status r) @ '' '' @ statusText r)\<rparr>,
           [build_request rt ''/search/trending'' None]) \<and>
        handleGetTrendingCoins rt args =
          (tool_json (failure_envelope ''Failed to fetch trending coins''
                        (''CoinGecko API error: '' @ show_nat (status r) @ '' '' @ statusText r)),
           [build_request rt ''/search/trending'' None]))"
proof -
  have client: "\<forall>r. fetch rt (build_request rt endpoint params) = Resolved r \<longrightarrow>
      (ok r \<longrightarrow> upstream rt endpoint params = json r) \<and>
      (\<not> ok r \<longrightarrow>
         upstream rt endpoint params = Inl (new_Error rt (api_error_message r)) \<and>
         err_message (new_Error rt (api_error_message r)) =
           ''CoinGecko API error: '' @ show_nat (status r) @ '' '' @ statusText r)"
    by (simp add: upstream_def callCoinGeckoAPI_ok callCoinGeckoAPI_not_ok new_Error_def
        api_error_message_def)
  have price_route: "length (snd (route_simple_price rt q)) =
        (if truthy (q ''ids'') \<and> truthy (q ''vs_currencies'') then 1 else 0)"
    by (cases "truthy (q ''ids'') \<and> truthy (q ''vs_currencies'')")
      (auto simp: route_simple_price_valid route_simple_price_missing)
  have token_route: "length (snd (route_token_by_address rt p q)) =
        (if truthy (p ''chainId'') \<and> truthy (p ''tokenAddress'') then 1 else 0)"
    by (cases "truthy (p ''chainId'') \<and> truthy (p ''tokenAddress'')")
      (auto simp: route_token_valid route_token_missing)
  have price_tool: "length (snd (handleGetSimplePrice rt args)) = (if args = None then 0 else 1)"
    by (cases args) (simp_all add: handleGetSimplePrice_eq, simp add: handleGetSimplePrice_def)
  have token_tool:
    "length (snd (handleGetTokenPriceByAddress rt args)) = (if args = None then 0 else 1)"
    by (cases args)
      (simp_all add: handleGetTokenPriceByAddress_eq, simp add: handleGetTokenPriceByAddress_def)
  have trending: "\<forall>r. fetch rt (build_request rt ''/search/trending'' None) = Resolved r \<and> \<not> ok r \<longrightarrow>
        route_trending rt =
          (\<lparr>http_status = 500,
            http_body = failure_envelope ''Failed to fetch trending coins''
                          (''CoinGecko API error: '' @ show_nat (status r) @ '' '' @ statusText r)\<rparr>,
           [build_request rt ''/search/trending'' None]) \<and>
        handleGetTrendingCoins rt args =
          (tool_json (failure_envelope ''Failed to fetch trending coins''
                        (''CoinGecko API error: '' @ show_nat (status r) @ '' '' @ statusText r)),
           [build_request rt ''/search/trending'' None])"
    by (simp add: route_trending_eq handleGetTrendingCoins_eq callCoinGeckoAPI_not_ok
        route_failure_def tool_failure_def failure_envelope_def new_Error_def
        api_error_message_def)
  have single: "MCPServer_callCoinGeckoAPI rt endpoint params = callCoinGeckoAPI rt endpoint params"
    "length (snd (callCoinGeckoAPI rt endpoint params)) = 1"
    "length (snd (route_trending rt)) = 1" "length (snd (route_new_coins rt)) = 1"
    "length (snd (handleGetTrendingCoins rt args)) = 1"
    "length (snd (handleGetNewCoins rt args)) = 1"
    by (simp_all add: MCPServer_callCoinGeckoAPI_eq callCoinGeckoAPI_calls route_trending_eq
        route_new_coins_eq handleGetTrendingCoins_eq handleGetNewCoins_eq)
  show ?thesis
    using client price_route token_route price_tool token_tool trending single by blast
qed

text \<open>An instance of the statement above, evaluated.\<close>

theorem upstream_status_single_fetch_witness:
  "route_trending rt_404 =
     (\<lparr>http_status = 500,
       http_body = JObj [(''error'', JStr ''Failed to fetch trending coins''),
                         (''message'', JStr ''CoinGecko API error: 404 Not Found'')]\<rparr>,
      [\<lparr>req_url = ''https://api.coingecko.com/api/v3/search/trending'', req_search = [],
        req_headers = [(''Accept'', ''application/json''), (''x-cg-demo-api-key'', ''undefined'')]\<rparr>])
   \<and> upstream rt_ok ''/search/trending'' None = Inr sample_body
   \<and> length (snd (route_simple_price rt_404
        (no_props(''ids'' := JStr ''bitcoin'', ''vs_currencies'' := JStr ''usd'')))) = 1"
  using upstream_status_single_fetch [where rt = rt_404 and endpoint = "''/search/trending''"
      and params = None and args = None and p = no_props
      and q = "no_props(''ids'' := JStr ''bitcoin'', ''vs_currencies'' := JStr ''usd'')"]
    upstream_status_single_fetch [where rt = rt_ok and endpoint = "''/search/trending''"
      and params = None and args = None and p = no_props and q = no_props]
  by (simp add: rt_404_def rt_ok_def ok_def failure_envelope_def build_request_def
      COINGECKO_BASE_URL_def process_env_def no_env_def show_nat.simps digit_def no_props_def)

subsection \<open>HTTP status codes\<close>

text \<open>
  Claim C6: on the HTTP surface, a required input that is \<^verbatim>\<open>undefined\<close>, \<^verbatim>\<open>null\<close> or empty gives
  status 400 with a body whose \<^verbatim>\<open>required\<close> lists both required names, and no request; a
  successful upstream call gives status 200 with the success envelope; a failed one gives
  status 500 with the category and the error's message only, whatever the error's stack.
\<close>

theorem http_status_mapping:
  "((q ''ids'' \<in> {JUndefined, JNull, JStr ''''} \<or> q ''vs_currencies'' \<in> {JUndefined, JNull, JStr ''''}) \<longrightarrow>
      route_simple_price rt q =
        (\<lparr>http_status = 400,
          http_body = JObj [(''error'', JStr ''Missing required parameters''),
                            (''required'', JArr [JStr ''ids'', JStr ''vs_currencies'']),
                            (''message'', JStr ''Both 'ids' and 'vs_currencies' are required parameters'')]\<rparr>,
         []))
   \<and> ((p ''chainId'' \<in> {JUndefined, JNull, JStr ''''} \<or> p ''tokenAddress'' \<in> {JUndefined, JNull, JStr ''''}) \<longrightarrow>
      route_token_by_address rt p q =
        (\<lparr>http_status = 400,
          http_body = JObj [(''error'', JStr ''Missing required path parameters''),
                            (''required'', JArr [JStr ''chainId'', JStr ''tokenAddress'']),
                            (''message'', JStr ''Both 'chainId' and 'tokenAddress' are required in the URL path'')]\<rparr>,
         []))
   \<and> (truthy (q ''ids'') \<and> truthy (q ''vs_currencies'') \<longrightarrow>
        fst (route_simple_price rt q) =
          (case upstream rt ''/simple/price'' (Some (route_price_params q)) of
             Inr data \<Rightarrow>
               \<lparr>http_status = 200,
                http_body = success_with_parameters data (route_price_params q)\<rparr>
           | Inl error \<Rightarrow>
               \<lparr>http_status = 500,
                http_body = failure_envelope ''Failed to fetch price data'' (err_message error)\<rparr>))
   \<and> fst (route_trending rt) =
          (case upstream rt ''/search/trending'' None of
             Inr data \<Rightarrow>
               \<lparr>http_status = 200,
                http_body = success_with_message data ''Trending coins fetched successfully''\<rparr>
           | Inl error \<Rightarrow>
               \<lparr>http_status = 500,
                http_body = failure_envelope ''Failed to fetch trending coins'' (err_message error)\<rparr>)
   \<and> fst (route_new_coins rt) =
          (case upstream rt ''/coins/list/new'' None of
             Inr data \<Rightarrow>
               \<lparr>http_status = 200,
                http_body = success_with_message data ''Newly listed coins fetched successfully''\<rparr>
           | Inl error \<Rightarrow>
               \<lparr>http_status = 500,
                http_body = failure_envelope ''Failed to fetch new coins'' (err_message error)\<rparr>)
   \<and> (truthy (p ''chainId'') \<and> truthy (p ''tokenAddress'') \<longrightarrow>
        fst (route_token_by_address rt p q) =
          (case upstream rt (token_endpoint (p ''chainId'') (p ''tokenAddress''))
                  (params_or_undefined (token_params q)) of
             Inr data \<Rightarrow>
               \<lparr>http_status = 200,
                http_body = success_with_parameters data
                              ([(''chainId'', p ''chainId''), (''tokenAddress'', p ''tokenAddress'')]
                               @ token_params q)\<rparr>
           | Inl error \<Rightarrow>
               \<lparr>http_status = 500,
                http_body = failure_envelope ''Failed to fetch token data'' (err_message error)\<rparr>))"
proof -
  have price_400: "(q ''ids'' \<in> {JUndefined, JNull, JStr ''''} \<or> q ''vs_currencies'' \<in> {JUndefined, JNull, JStr ''''}) \<longrightarrow>
      route_simple_price rt q =
        (\<lparr>http_status = 400,
          http_body = JObj [(''error'', JStr ''Missing required parameters''),
                            (''required'', JArr [JStr ''ids'', JStr ''vs_currencies'']),
                            (''message'', JStr ''Both 'ids' and 'vs_currencies' are required parameters'')]\<rparr>,
         [])"
    using route_simple_price_missing [of q rt] not_truthy_absent by blast
  have token_400: "(p ''chainId'' \<in> {JUndefined, JNull, JStr ''''} \<or> p ''tokenAddress'' \<in> {JUndefined, JNull, JStr ''''}) \<longrightarrow>
      route_token_by_address rt p q =
        (\<lparr>http_status = 400,
          http_body = JObj [(''error'', JStr ''Missing required path parameters''),
                            (''required'', JArr [JStr ''chainId'', JStr ''tokenAddress'']),
                            (''message'', JStr ''Both 'chainId' and 'tokenAddress' are required in the URL path'')]\<rparr>,
         [])"
    using route_token_missing [of p rt q] not_truthy_absent by blast
  have rest: "(truthy (q ''ids'') \<and> truthy (q ''vs_currencies'') \<longrightarrow>
        fst (route_simple_price rt q) =
          (case upstream rt ''/simple/price'' (Some (route_price_params q)) of
             Inr data \<Rightarrow>
               \<lparr>http_status = 200,
                http_body = success_with_parameters data (route_price_params q)\<rparr>
           | Inl error \<Rightarrow>
               \<lparr>http_status = 500,
                http_body = failure_envelope ''Failed to fetch price data'' (err_message error)\<rparr>))"
    "fst (route_trending rt) =
          (case upstream rt ''/search/trending'' None of
             Inr data \<Rightarrow>
               \<lparr>http_status = 200,
                http_body = success_with_message data ''Trending coins fetched successfully''\<rparr>
           | Inl error \<Rightarrow>
               \<lparr>http_status = 500,
                http_body = failure_envelope ''Failed to fetch trending coins'' (err_message error)\<rparr>)"
    "fst (route_new_coins rt) =
          (case upstream rt ''/coins/list/new'' None of
             Inr data \<Rightarrow>
               \<lparr>http_status = 200,
                http_body = success_with_message data ''Newly listed coins fetched successfully''\<rparr>
           | Inl error \<Rightarrow>
               \<lparr>http_status = 500,
                http_body = failure_envelope ''Failed to fetch new coins'' (err_message error)\<rparr>)"
    "(truthy (p ''chainId'') \<and> truthy (p ''tokenAddress'') \<longrightarrow>
        fst (route_token_by_address rt p q) =
          (case upstream rt (token_endpoint (p ''chainId'') (p ''tokenAddress''))
                  (params_or_undefined (token_params q)) of
             Inr data \<Rightarrow>
               \<lparr>http_status = 200,
                http_body = success_with_parameters data
                              ([(''chainId'', p ''chainId''), (''tokenAddress'', p ''tokenAddress'')]
                               @ token_params q)\<rparr>
           | Inl error \<Rightarrow>
               \<lparr>http_status = 500,
                http_body = failure_envelope ''Failed to fetch token data'' (err_message error)\<rparr>))"
    by (simp_all add: route_simple_price_valid route_trending_eq route_new_coins_eq
        route_token_valid upstream_def success_with_parameters_def success_with_message_def
        failure_envelope_def route_failure_def split: sum.splits)
  show ?thesis
    using price_400 token_400 rest by blast
qed

text \<open>An instance of the statement above, evaluated.\<close>

theorem http_status_mapping_witness:
  "route_simple_price rt_ok (no_props(''vs_currencies'' := JStr ''usd'')) =
     (\<lparr>http_status = 400,
       http_body = JObj [(''error'', JStr ''Missing required parameters''),
                         (''required'', JArr [JStr ''ids'', JStr ''vs_currencies'']),
                         (''message'', JStr ''Both 'ids' and 'vs_currencies' are required parameters'')]\<rparr>,
      [])
   \<and> fst (route_simple_price rt_ok
            (no_props(''ids'' := JStr ''bitcoin,ethereum'', ''vs_currencies'' := JStr ''usd''))) =
     \<lparr>http_status = 200,
      http_body = JObj [(''success'', JBool True), (''data'', sample_body),
                        (''parameters'', JObj [(''ids'', JStr ''bitcoin,ethereum''),
                                               (''vs_currencies'', JStr ''usd'')])]\<rparr>
   \<and> fst (route_trending rt_404) =
     \<lparr>http_status = 500,
      http_body = JObj [(''error'', JStr ''Failed to fetch trending coins''),
                        (''message'', JStr ''CoinGecko API error: 404 Not Found'')]\<rparr>
   \<and> fst (route_new_coins rt_down) =
     \<lparr>http_status = 500,
      http_body = JObj [(''error'', JStr ''Failed to fetch new coins''),
                        (''message'', JStr ''fetch failed'')]\<rparr>"
  using http_status_mapping [where q = "no_props(''vs_currencies'' := JStr ''usd'')"
        and p = no_props and rt = rt_ok]
    http_status_mapping [where q = no_props and p = no_props and rt = rt_down]
    http_status_mapping [where q = "no_props(''ids'' := JStr ''bitcoin,ethereum'',
        ''vs_currencies'' := JStr ''usd'')" and p = no_props and rt = rt_ok]
    http_status_mapping [where q = no_props and p = no_props and rt = rt_404]
  by (simp add: no_props_def upstream_def callCoinGeckoAPI_def rt_ok_def rt_404_def rt_down_def
      ok_def route_price_params_def add_if_truthy_def success_with_parameters_def
      success_with_message_def failure_envelope_def new_Error_def api_error_message_def
      show_nat.simps digit_def)

subsection \<open>Payment gate\<close>

text \<open>
  Claim C7: the payment gate is enabled exactly when the facilitator URL and the payout
  address are both configured, which is also what \<^verbatim>\<open>isPaymentConfigured\<close> reports. Enabled,
  the stack holds the payment middleware, with the static table for the four routes and the
  JSON-RPC endpoint, ahead of the routers; disabled, the stack holds no payment middleware and
  nothing gates the way to the CoinGecko router.
\<close>

theorem payment_gate_two_states:
  "payment_gate (app_middleware cfg rt) =
     (if configured rt ''FACILITATOR_URL'' \<and> configured rt ''ADDRESS'' then Enabled else Disabled)
   \<and> isPaymentConfigured rt = (payment_gate (app_middleware cfg rt) = Enabled)
   \<and> (payment_gate (app_middleware cfg rt) = Enabled \<longrightarrow>
        app_middleware cfg rt =
          [Cors, ExpressJson,
           PaymentMiddleware (JStr (the (env rt ''ADDRESS''))) (payment_routes cfg)
             (JStr (the (env rt ''FACILITATOR_URL''))),
           Use ''/'' HealthRoutes, Use ''/mcp'' McpRoutes, Use ''/mcp'' CoingeckoRoutes,
           ErrorHandler]
        \<and> map fst (payment_routes cfg) =
            map (\<lambda>route. ''GET /mcp'' @ route) coingecko_routes @ [''GET /mcp''])
   \<and> (payment_gate (app_middleware cfg rt) = Disabled \<longrightarrow>
        app_middleware cfg rt =
          [Cors, ExpressJson, Use ''/'' HealthRoutes, Use ''/mcp'' McpRoutes,
           Use ''/mcp'' CoingeckoRoutes, ErrorHandler]
        \<and> gates_ahead_of CoingeckoRoutes (app_middleware cfg rt) = [])"
proof (cases "configured rt ''FACILITATOR_URL'' \<and> configured rt ''ADDRESS''")
  case True
  then have vals: "getFacilitatorUrl rt = JStr (the (env rt ''FACILITATOR_URL''))"
    "getPaymentAddress rt = JStr (the (env rt ''ADDRESS''))"
    by (simp_all add: getFacilitatorUrl_def getPaymentAddress_def getter_value)
  have stack: "app_middleware cfg rt =
          [Cors, ExpressJson,
           PaymentMiddleware (JStr (the (env rt ''ADDRESS''))) (payment_routes cfg)
             (JStr (the (env rt ''FACILITATOR_URL''))),
           Use ''/'' HealthRoutes, Use ''/mcp'' McpRoutes, Use ''/mcp'' CoingeckoRoutes,
           ErrorHandler]"
    using True gate_condition [of rt] by (simp add: app_middleware_def Let_def vals)
  show ?thesis
    using True
    by (simp add: stack payment_gate_def isPaymentConfigured_def gate_condition
        payment_routes_def coingecko_routes_def)
next
  case False
  have stack: "app_middleware cfg rt =
          [Cors, ExpressJson, Use ''/'' HealthRoutes, Use ''/mcp'' McpRoutes,
           Use ''/mcp'' CoingeckoRoutes, ErrorHandler]"
    using False gate_condition [of rt] by (simp add: app_middleware_def Let_def)
  show ?thesis
    using False
    by (simp add: stack payment_gate_def isPaymentConfigured_def gate_condition
        gates_ahead_of_def)
qed

text \<open>An instance of the statement above, evaluated.\<close>

theorem payment_gate_two_states_witness:
  "payment_gate (app_middleware sample_config rt_paid) = Enabled
   \<and> payment_gate (app_middleware sample_config rt_unpaid) = Disabled
   \<and> payment_gate (app_middleware sample_config rt_ok) = Disabled
   \<and> app_middleware sample_config rt_unpaid =
       [Cors, ExpressJson, Use ''/'' HealthRoutes, Use ''/mcp'' McpRoutes,
        Use ''/mcp'' CoingeckoRoutes, ErrorHandler]"
  using payment_gate_two_states [of sample_config rt_paid]
    payment_gate_two_states [of sample_config rt_unpaid]
    payment_gate_two_states [of sample_config rt_ok]
  by (simp add: configured_def rt_paid_def rt_unpaid_def rt_ok_def no_env_def)

subsection \<open>Unknown tools and resources\<close>

text \<open>
  Claim C8: a tool call that names none of the four tools returns a text block
  \<^verbatim>\<open>Error: Unknown tool <name>\<close> and performs no request; a resource read with none of the four
  URIs fails with the error \<^verbatim>\<open>Unknown resource: <uri>\<close>.
\<close>

theorem unknown_tool_and_resource:
  "(name \<notin> {''get_simple_price'', ''get_trending_coins'', ''get_new_coins'',
              ''get_token_price_by_address''} \<longrightarrow>
      call_tool_request rt name args =
        (Inr (ToolResult [TextContent (Literal (''Error: Unknown tool '' @ name))]), []))
   \<and> (u \<notin> {''coingecko://market/status'', ''coingecko://trending/coins'',
             ''coingecko://new/coins'', ''coingecko://api/info''} \<longrightarrow>
      read_resource_request rt u = (Inl (new_Error rt (''Unknown resource: '' @ u)), [])
      \<and> err_message (new_Error rt (''Unknown resource: '' @ u)) = ''Unknown resource: '' @ u)"
  by (simp add: call_tool_request_def read_resource_request_def new_Error_def)

text \<open>An instance of the statement above, evaluated.\<close>

theorem unknown_tool_and_resource_witness:
  "call_tool_request rt_ok ''calculate'' (Some no_props) =
     (Inr (ToolResult [TextContent (Literal ''Error: Unknown tool calculate'')]), [])
   \<and> read_resource_request rt_ok ''coingecko://prices'' =
     (Inl \<lparr>err_name = ''Error'', err_message = ''Unknown resource: coingecko://prices'',
           err_stack = ''at callCoinGeckoAPI''\<rparr>, [])"
  using unknown_tool_and_resource [of "''calculate''" rt_ok "Some no_props" "''coingecko://prices''"]
  by (simp add: new_Error_def rt_ok_def)

subsection \<open>Token lookup without options\<close>

text \<open>
  Claim C9: when none of the six optional inputs of the token lookup is supplied, the upstream
  client is called with the path \<^verbatim>\<open>/coins/{chainId}/contract/{tokenAddress}\<close> and without a
  parameter object, so the request has no query entries: by the tool handler for every
  \<^verbatim>\<open>chainId\<close> and \<^verbatim>\<open>tokenAddress\<close>, by the HTTP route for every truthy pair (a path segment of
  a matched route is never empty).
\<close>

theorem token_lookup_without_options:
  assumes "\<forall>k \<in> set token_optional_keys. q k = JUndefined"
  shows "params_or_undefined (token_params q) = None
    \<and> handleGetTokenPriceByAddress rt (Some q) =
         (case upstream rt (token_endpoint (q ''chainId'') (q ''tokenAddress'')) None of
            Inr data \<Rightarrow>
              tool_json (success_with_parameters data
                           [(''chainId'', q ''chainId''), (''tokenAddress'', q ''tokenAddress'')])
          | Inl error \<Rightarrow> tool_failure ''Failed to fetch token data'' error,
          [build_request rt (token_endpoint (q ''chainId'') (q ''tokenAddress'')) None])
    \<and> (truthy (p ''chainId'') \<and> truthy (p ''tokenAddress'') \<longrightarrow>
         route_token_by_address rt p q =
           (case upstream rt (token_endpoint (p ''chainId'') (p ''tokenAddress'')) None of
              Inr data \<Rightarrow>
                \<lparr>http_status = 200,
                 http_body = success_with_parameters data
                               [(''chainId'', p ''chainId''), (''tokenAddress'', p ''tokenAddress'')]\<rparr>
            | Inl error \<Rightarrow> route_failure ''Failed to fetch token data'' error,
            [build_request rt (token_endpoint (p ''chainId'') (p ''tokenAddress'')) None]))
    \<and> token_endpoint (JStr c) (JStr t) = ''/coins/'' @ c @ ''/contract/'' @ t
    \<and> req_url (build_request rt (token_endpoint (JStr c) (JStr t)) None) =
        ''https://api.coingecko.com/api/v3/coins/'' @ c @ ''/contract/'' @ t
    \<and> req_search (build_request rt endpoint None) = []"
proof -
  have none: "token_params q = []"
    using assms by (rule token_params_none)
  show ?thesis
    by (simp add: none params_or_undefined_def build_request_def COINGECKO_BASE_URL_def
        handleGetTokenPriceByAddress_eq route_token_valid token_endpoint_def upstream_def
        success_with_parameters_def split: sum.splits)
qed

text \<open>An instance of the statement above, evaluated.\<close>

theorem token_lookup_without_options_witness:
  "route_token_by_address rt_ok (no_props(''chainId'' := JStr ''ethereum'',
       ''tokenAddress'' := JStr ''0xABC'')) no_props =
     (\<lparr>http_status = 200,
       http_body = JObj [(''success'', JBool True), (''data'', sample_body),
                         (''parameters'', JObj [(''chainId'', JStr ''ethereum''),
                                                (''tokenAddress'', JStr ''0xABC'')])]\<rparr>,
      [\<lparr>req_url = ''https://api.coingecko.com/api/v3/coins/ethereum/contract/0xABC'',
        req_search = [],
        req_headers = [(''Accept'', ''application/json''), (''x-cg-demo-api-key'', ''undefined'')]\<rparr>])"
proof -
  have h: "\<forall>k \<in> set token_optional_keys. no_props k = JUndefined"
    by (simp add: no_props_def)
  show ?thesis
    using token_lookup_without_options [OF h, where rt = rt_ok and c = "''ethereum''"
        and t = "''0xABC''" and endpoint = "''/search/trending''"
        and p = "no_props(''chainId'' := JStr ''ethereum'', ''tokenAddress'' := JStr ''0xABC'')"]
    by (simp add: upstream_def callCoinGeckoAPI_def build_request_def rt_ok_def ok_def
        success_with_parameters_def COINGECKO_BASE_URL_def process_env_def no_env_def
        token_endpoint_def)
qed

subsection \<open>Prompt arguments\<close>

text \<open>
  Claim C10: the prompt \<^verbatim>\<open>crypto_price_check\<close> without arguments succeeds with the defaults
  \<^verbatim>\<open>bitcoin,ethereum,solana\<close> and \<^verbatim>\<open>usd,eur\<close>; the prompt \<^verbatim>\<open>token_research\<close> without
  an address fails with an error, and with an address but without a chain it uses
  \<^verbatim>\<open>ethereum\<close>.
\<close>

theorem prompt_argument_defaults:
  "get_prompt_request rt ''crypto_price_check'' None =
     Inr (PromptResult [PromptMessage ''user''
       ''Please check the current prices for bitcoin,ethereum,solana in usd,eur. Use the get_simple_price tool with these parameters.''])
   \<and> get_prompt_request rt ''crypto_price_check'' (Some no_props) =
     get_prompt_request rt ''crypto_price_check'' None
   \<and> (\<not> truthy (optional_prop args ''address'') \<longrightarrow>
        get_prompt_request rt ''token_research'' args =
          Inl (new_Error rt ''Token address is required for token research''))
   \<and> (truthy (optional_prop args ''address'') \<and> \<not> truthy (optional_prop args ''chain'') \<longrightarrow>
        get_prompt_request rt ''token_research'' args =
          Inr (PromptResult [PromptMessage ''user''
            (''Please research the token at address '' @ String_js (optional_prop args ''address'')
             @ '' on ethereum blockchain. Use the get_token_price_by_address tool with market_data=true to get comprehensive information including price, market cap, volume, and other key metrics.'')]))"
  by (simp add: get_prompt_request_def handleCryptoPriceCheckPrompt_def
      handleTokenResearchPrompt_def optional_prop_def js_or_def no_props_def)

text \<open>An instance of the statement above, evaluated.\<close>

theorem prompt_argument_defaults_witness:
  "get_prompt_request rt_ok ''token_research'' None =
     Inl \<lparr>err_name = ''Error'', err_message = ''Token address is required for token research'',
          err_stack = ''at callCoinGeckoAPI''\<rparr>
   \<and> get_prompt_request rt_ok ''token_research'' (Some (no_props(''chain'' := JStr ''base''))) =
     get_prompt_request rt_ok ''token_research'' None
   \<and> get_prompt_request rt_ok ''token_research'' (Some (no_props(''address'' := JStr ''0xABC''))) =
     Inr (PromptResult [PromptMessage ''user''
       ''Please research the token at address 0xABC on ethereum blockchain. Use the get_token_price_by_address tool with market_data=true to get comprehensive information including price, market cap, volume, and other key metrics.''])"
  using prompt_argument_defaults [of rt_ok None]
    prompt_argument_defaults [of rt_ok "Some (no_props(''chain'' := JStr ''base''))"]
    prompt_argument_defaults [of rt_ok "Some (no_props(''address'' := JStr ''0xABC''))"]
  by (simp add: optional_prop_def no_props_def new_Error_def rt_ok_def)

end
